theory Spec2Isabelle
  imports Complex_Main
begin

section \<open>Identifiers and errors\<close>

text \<open>
  Document identifiers are BSON ObjectIds.  The handlers receive them as path strings,
  test them with \<^verbatim>\<open>ObjectId.is_valid\<close> and convert them with \<^verbatim>\<open>ObjectId(...)\<close>; the pydantic
  type \<^verbatim>\<open>PyObjectId\<close> of \<^verbatim>\<open>models.py\<close> turns every ObjectId into its string form.  An
  identifier is therefore modelled by its canonical string: 24 hexadecimal digits, in
  lower case.  \<open>is_valid\<close> accepts the 24-digit strings in either case and \<open>ObjectId\<close>
  normalises the case, which is what the library documents for string arguments.
\<close>

definition hexdigit :: "char \<Rightarrow> bool" where
  "hexdigit c = (c \<in> set ''0123456789abcdefABCDEF'')"

definition lower_hex :: "char \<Rightarrow> char" where
  "lower_hex c =
     (if c = CHR ''A'' then CHR ''a'' else if c = CHR ''B'' then CHR ''b''
      else if c = CHR ''C'' then CHR ''c'' else if c = CHR ''D'' then CHR ''d''
      else if c = CHR ''E'' then CHR ''e'' else if c = CHR ''F'' then CHR ''f'' else c)"

definition is_valid :: "string \<Rightarrow> bool" where
  "is_valid s = (length s = 24 \<and> list_all hexdigit s)"

definition ObjectId :: "string \<Rightarrow> string" where
  "ObjectId s = map lower_hex s"

text \<open>\<^verbatim>\<open>HTTPException(status_code=..., detail=...)\<close>: every \<^verbatim>\<open>raise\<close> of a handler is a value.\<close>

datatype HTTPException = HTTPException (status_code: nat) (detail: string)

section \<open>The data model of \<^verbatim>\<open>models.py\<close>\<close>

text \<open>
  Field names are the source's; a name shared by several models carries the model's
  initial (\<open>id_A\<close> is \<^verbatim>\<open>Activity.id\<close>).  \<^verbatim>\<open>datetime\<close> values are points on an integer time
  line, \<^verbatim>\<open>float\<close> amounts are read as the real numbers they denote, and \<^verbatim>\<open>Optional\<close> is
  \<open>option\<close>.
\<close>

type_synonym datetime = int

record User =
  id_U :: string
  email :: string
  username :: string
  name_U :: "string option"
  hashed_password :: string
  created_at_U :: datetime
  profile_picture :: "string option"

record Activity =
  id_A :: string
  title_A :: string
  time :: string
  location :: string
  activity_type :: string
  notes_A :: "string option"
  cost :: "real option"
  day :: int
  order :: int

record Expense =
  id_E :: string
  title_E :: string
  amount :: real
  category_E :: string
  date :: datetime
  notes_E :: "string option"

record PackingItem =
  id_P :: string
  name_P :: string
  category_P :: string
  packed :: bool
  notes_P :: "string option"

record Trip =
  id_T :: string
  title_T :: string
  destination :: string
  start_date :: datetime
  end_date :: datetime
  budget :: real
  owner_id :: string
  collaborators :: "string list"
  activities :: "Activity list"
  expenses :: "Expense list"
  packing_items :: "PackingItem list"
  notes_T :: "string option"
  created_at :: datetime
  updated_at :: datetime

record TripCreate =
  title_TC :: string
  destination_TC :: string
  start_date_TC :: datetime
  end_date_TC :: datetime
  budget_TC :: real

record TripUpdate =
  title_TU :: "string option"
  destination_TU :: "string option"
  start_date_TU :: "datetime option"
  end_date_TU :: "datetime option"
  budget_TU :: "real option"
  notes_TU :: "string option"

section \<open>The document store\<close>

text \<open>
  \<^verbatim>\<open>db.trips\<close> and \<^verbatim>\<open>db.users\<close> are collections of documents, kept in insertion order.
  \<^verbatim>\<open>db.activities\<close> and \<^verbatim>\<open>db.expenses\<close> are the two further collections that only the
  export handlers query; their documents carry a \<^verbatim>\<open>trip_id\<close> beside the model's fields.
\<close>

record Database =
  trips :: "Trip list"
  users :: "User list"
  activities_coll :: "(string \<times> Activity) list"
  expenses_coll :: "(string \<times> Expense) list"

text \<open>\<^verbatim>\<open>find_one(filter)\<close>: the first document that satisfies the filter.\<close>

definition find_one :: "('d \<Rightarrow> bool) \<Rightarrow> 'd list \<Rightarrow> 'd option" where
  "find_one q ds = find q ds"

text \<open>
  \<^verbatim>\<open>update_one(filter, update)\<close> changes the first document that satisfies the filter and
  nothing when there is none.  The positional operator \<^verbatim>\<open>$\<close> of an update does the same
  inside an array: it addresses the first element that matches the filter's condition on
  the array.
\<close>

fun update_first :: "('d \<Rightarrow> bool) \<Rightarrow> ('d \<Rightarrow> 'd) \<Rightarrow> 'd list \<Rightarrow> 'd list" where
  "update_first q u [] = []"
| "update_first q u (d # ds) = (if q d then u d # ds else d # update_first q u ds)"

abbreviation update_one :: "('d \<Rightarrow> bool) \<Rightarrow> ('d \<Rightarrow> 'd) \<Rightarrow> 'd list \<Rightarrow> 'd list" where
  "update_one \<equiv> update_first"

abbreviation set_positional :: "('e \<Rightarrow> bool) \<Rightarrow> ('e \<Rightarrow> 'e) \<Rightarrow> 'e list \<Rightarrow> 'e list" where
  "set_positional \<equiv> update_first"

text \<open>\<^verbatim>\<open>delete_one(filter)\<close> removes the first document that satisfies the filter.\<close>

fun delete_one :: "('d \<Rightarrow> bool) \<Rightarrow> 'd list \<Rightarrow> 'd list" where
  "delete_one q [] = []"
| "delete_one q (d # ds) = (if q d then ds else d # delete_one q ds)"

text \<open>\<^verbatim>\<open>$push\<close> appends to an array; \<^verbatim>\<open>$pull\<close> removes every element that matches.\<close>

definition push :: "'e \<Rightarrow> 'e list \<Rightarrow> 'e list" where
  "push x xs = xs @ [x]"

definition pull :: "('e \<Rightarrow> bool) \<Rightarrow> 'e list \<Rightarrow> 'e list" where
  "pull q xs = filter (\<lambda>x. \<not> q x) xs"

section \<open>\<^verbatim>\<open>routers/trips_router.py\<close>\<close>

text \<open>
  A handler takes the database, its path and body parameters and the authenticated user,
  and returns its response or the exception it raises, together with the database it
  leaves.  The values a handler draws from outside (a new \<^verbatim>\<open>ObjectId()\<close>, the clock) are
  parameters.
\<close>

definition create_trip ::
  "Database \<Rightarrow> TripCreate \<Rightarrow> User \<Rightarrow> string \<Rightarrow> datetime \<Rightarrow> datetime \<Rightarrow> Trip \<times> Database" where
  "create_trip db trip current_user inserted_id now1 now2 =
     (let trip_dict = \<lparr>id_T = inserted_id, title_T = title_TC trip,
            destination = destination_TC trip, start_date = start_date_TC trip,
            end_date = end_date_TC trip, budget = budget_TC trip,
            owner_id = id_U current_user, collaborators = [], activities = [],
            expenses = [], packing_items = [], notes_T = Some [],
            created_at = now1, updated_at = now2\<rparr>
      in (trip_dict, db\<lparr>trips := trips db @ [trip_dict]\<rparr>))"



text \<open>
  \<^verbatim>\<open>update_data\<close> holds the fields of the body that are not \<^verbatim>\<open>None\<close>; \<^verbatim>\<open>$set\<close> writes them,
  and \<^verbatim>\<open>updated_at\<close> with them, only when there is at least one.
\<close>

definition update_data_nonempty :: "TripUpdate \<Rightarrow> bool" where
  "update_data_nonempty u =
     (title_TU u \<noteq> None \<or> destination_TU u \<noteq> None \<or> start_date_TU u \<noteq> None
      \<or> end_date_TU u \<noteq> None \<or> budget_TU u \<noteq> None \<or> notes_TU u \<noteq> None)"

definition set_update_data :: "TripUpdate \<Rightarrow> datetime \<Rightarrow> Trip \<Rightarrow> Trip" where
  "set_update_data u now t =
     t\<lparr>title_T := (case title_TU u of None \<Rightarrow> title_T t | Some v \<Rightarrow> v),
       destination := (case destination_TU u of None \<Rightarrow> destination t | Some v \<Rightarrow> v),
       start_date := (case start_date_TU u of None \<Rightarrow> start_date t | Some v \<Rightarrow> v),
       end_date := (case end_date_TU u of None \<Rightarrow> end_date t | Some v \<Rightarrow> v),
       budget := (case budget_TU u of None \<Rightarrow> budget t | Some v \<Rightarrow> v),
       notes_T := (case notes_TU u of None \<Rightarrow> notes_T t | Some v \<Rightarrow> Some v),
       updated_at := now\<rparr>"

text \<open>
  Where a handler reads the trip back after its write, \<^verbatim>\<open>Trip(**None)\<close> would raise; the
  framework answers an unhandled exception with status 500.
\<close>

definition reread :: "Database \<Rightarrow> string \<Rightarrow> HTTPException + Trip" where
  "reread db trip_id =
     (case find_one (\<lambda>t. id_T t = ObjectId trip_id) (trips db) of
        None \<Rightarrow> Inl (HTTPException 500 ''Internal Server Error'')
      | Some updated_trip \<Rightarrow> Inr updated_trip)"

definition update_trip ::
  "Database \<Rightarrow> string \<Rightarrow> TripUpdate \<Rightarrow> User \<Rightarrow> datetime \<Rightarrow> (HTTPException + Trip) \<times> Database" where
  "update_trip db trip_id trip_update current_user now =
     (if \<not> is_valid trip_id then (Inl (HTTPException 400 ''Invalid trip ID''), db)
      else case find_one (\<lambda>t. id_T t = ObjectId trip_id) (trips db) of
        None \<Rightarrow> (Inl (HTTPException 404 ''Trip not found''), db)
      | Some trip_obj \<Rightarrow>
          if owner_id trip_obj \<noteq> id_U current_user
          then (Inl (HTTPException 403 ''Only trip owner can update trip details''), db)
          else let db' = (if update_data_nonempty trip_update
                          then db\<lparr>trips := update_one (\<lambda>t. id_T t = ObjectId trip_id)
                                             (set_update_data trip_update now) (trips db)\<rparr>
                          else db)
               in (reread db' trip_id, db'))"

definition delete_trip ::
  "Database \<Rightarrow> string \<Rightarrow> User \<Rightarrow> (HTTPException + string) \<times> Database" where
  "delete_trip db trip_id current_user =
     (if \<not> is_valid trip_id then (Inl (HTTPException 400 ''Invalid trip ID''), db)
      else case find_one (\<lambda>t. id_T t = ObjectId trip_id) (trips db) of
        None \<Rightarrow> (Inl (HTTPException 404 ''Trip not found''), db)
      | Some trip_obj \<Rightarrow>
          if owner_id trip_obj \<noteq> id_U current_user
          then (Inl (HTTPException 403 ''Only trip owner can delete trip''), db)
          else (Inr ''Trip deleted successfully'',
                db\<lparr>trips := delete_one (\<lambda>t. id_T t = ObjectId trip_id) (trips db)\<rparr>))"

definition add_collaborator ::
  "Database \<Rightarrow> string \<Rightarrow> string \<Rightarrow> User \<Rightarrow> (HTTPException + string) \<times> Database" where
  "add_collaborator db trip_id user_email current_user =
     (if \<not> is_valid trip_id then (Inl (HTTPException 400 ''Invalid trip ID''), db)
      else case find_one (\<lambda>t. id_T t = ObjectId trip_id) (trips db) of
        None \<Rightarrow> (Inl (HTTPException 404 ''Trip not found''), db)
      | Some trip_obj \<Rightarrow>
          if owner_id trip_obj \<noteq> id_U current_user
          then (Inl (HTTPException 403 ''Only trip owner can add collaborators''), db)
          else (case find_one (\<lambda>u. email u = user_email) (users db) of
                  None \<Rightarrow> (Inl (HTTPException 404 ''User not found''), db)
                | Some user_obj \<Rightarrow>
                    (Inr ''Collaborator added successfully'',
                     (if id_U user_obj \<notin> set (collaborators trip_obj)
                      then db\<lparr>trips := update_one (\<lambda>t. id_T t = ObjectId trip_id)
                             (\<lambda>t. t\<lparr>collaborators := push (id_U user_obj) (collaborators t)\<rparr>)
                             (trips db)\<rparr>
                      else db))))"

definition join_trip ::
  "Database \<Rightarrow> string \<Rightarrow> User \<Rightarrow> (HTTPException + Trip) \<times> Database" where
  "join_trip db trip_id current_user =
     (if \<not> is_valid trip_id then (Inl (HTTPException 400 ''Invalid trip ID''), db)
      else case find_one (\<lambda>t. id_T t = ObjectId trip_id) (trips db) of
        None \<Rightarrow> (Inl (HTTPException 404 ''Trip not found''), db)
      | Some trip_obj \<Rightarrow>
          if owner_id trip_obj = id_U current_user
          then (Inl (HTTPException 400 ''You are already the owner of this trip''), db)
          else if id_U current_user \<in> set (collaborators trip_obj)
          then (Inl (HTTPException 400 ''You are already a collaborator of this trip''), db)
          else let db' = db\<lparr>trips := update_one (\<lambda>t. id_T t = ObjectId trip_id)
                               (\<lambda>t. t\<lparr>collaborators := push (id_U current_user) (collaborators t)\<rparr>)
                               (trips db)\<rparr>
               in (reread db' trip_id, db'))"

section \<open>\<^verbatim>\<open>routers/activities_router.py\<close>\<close>

text \<open>
  \<^verbatim>\<open>activity.dict()\<close> keeps the body's fields under their names, and the handler adds the
  key \<^verbatim>\<open>_id\<close>; when the document is parsed again the alias \<^verbatim>\<open>_id\<close> is the one read into
  \<^verbatim>\<open>id\<close>.  So the dictionary is the body with its identifier overwritten.
\<close>

definition create_activity ::
  "Database \<Rightarrow> string \<Rightarrow> Activity \<Rightarrow> User \<Rightarrow> string \<Rightarrow> (HTTPException + Activity) \<times> Database" where
  "create_activity db trip_id activity current_user new_oid =
     (if \<not> is_valid trip_id then (Inl (HTTPException 400 ''Invalid trip ID''), db)
      else case find_one (\<lambda>t. id_T t = ObjectId trip_id) (trips db) of
        None \<Rightarrow> (Inl (HTTPException 404 ''Trip not found''), db)
      | Some trip_obj \<Rightarrow>
          if owner_id trip_obj \<noteq> id_U current_user
             \<and> id_U current_user \<notin> set (collaborators trip_obj)
          then (Inl (HTTPException 403 ''Access denied''), db)
          else let activity_dict = activity\<lparr>id_A := new_oid\<rparr>
               in (Inr activity_dict,
                   db\<lparr>trips := update_one (\<lambda>t. id_T t = ObjectId trip_id)
                                  (\<lambda>t. t\<lparr>activities := push activity_dict (activities t)\<rparr>)
                                  (trips db)\<rparr>))"

definition get_trip_activities ::
  "Database \<Rightarrow> string \<Rightarrow> User \<Rightarrow> HTTPException + Activity list" where
  "get_trip_activities db trip_id current_user =
     (if \<not> is_valid trip_id then Inl (HTTPException 400 ''Invalid trip ID'')
      else case find_one (\<lambda>t. id_T t = ObjectId trip_id) (trips db) of
        None \<Rightarrow> Inl (HTTPException 404 ''Trip not found'')
      | Some trip_obj \<Rightarrow>
          if owner_id trip_obj \<noteq> id_U current_user
             \<and> id_U current_user \<notin> set (collaborators trip_obj)
          then Inl (HTTPException 403 ''Access denied'')
          else Inr (activities trip_obj))"

definition update_activity ::
  "Database \<Rightarrow> string \<Rightarrow> string \<Rightarrow> Activity \<Rightarrow> User \<Rightarrow> (HTTPException + Activity) \<times> Database" where
  "update_activity db trip_id activity_id activity_update current_user =
     (if \<not> is_valid trip_id \<or> \<not> is_valid activity_id
      then (Inl (HTTPException 400 ''Invalid ID''), db)
      else case find_one (\<lambda>t. id_T t = ObjectId trip_id) (trips db) of
        None \<Rightarrow> (Inl (HTTPException 404 ''Trip not found''), db)
      | Some trip_obj \<Rightarrow>
          if owner_id trip_obj \<noteq> id_U current_user
             \<and> id_U current_user \<notin> set (collaborators trip_obj)
          then (Inl (HTTPException 403 ''Access denied''), db)
          else let activity_dict = activity_update\<lparr>id_A := ObjectId activity_id\<rparr>
               in (Inr activity_dict,
                   db\<lparr>trips := update_one
                        (\<lambda>t. id_T t = ObjectId trip_id
                              \<and> ObjectId activity_id \<in> set (map id_A (activities t)))
                        (\<lambda>t. t\<lparr>activities := set_positional
                                 (\<lambda>a. id_A a = ObjectId activity_id) (\<lambda>a. activity_dict)
                                 (activities t)\<rparr>)
                        (trips db)\<rparr>))"

definition delete_activity ::
  "Database \<Rightarrow> string \<Rightarrow> string \<Rightarrow> User \<Rightarrow> (HTTPException + string) \<times> Database" where
  "delete_activity db trip_id activity_id current_user =
     (if \<not> is_valid trip_id \<or> \<not> is_valid activity_id
      then (Inl (HTTPException 400 ''Invalid ID''), db)
      else case find_one (\<lambda>t. id_T t = ObjectId trip_id) (trips db) of
        None \<Rightarrow> (Inl (HTTPException 404 ''Trip not found''), db)
      | Some trip_obj \<Rightarrow>
          if owner_id trip_obj \<noteq> id_U current_user
             \<and> id_U current_user \<notin> set (collaborators trip_obj)
          then (Inl (HTTPException 403 ''Access denied''), db)
          else (Inr ''Activity deleted successfully'',
                db\<lparr>trips := update_one (\<lambda>t. id_T t = ObjectId trip_id)
                     (\<lambda>t. t\<lparr>activities := pull (\<lambda>a. id_A a = ObjectId activity_id) (activities t)\<rparr>)
                     (trips db)\<rparr>))"

text \<open>
  The body of the reorder request is a list of dictionaries, read with
  \<^verbatim>\<open>.get("activity_id")\<close> and \<^verbatim>\<open>.get("order")\<close>: the identifier may be missing
  (\<^verbatim>\<open>None\<close>, which \<^verbatim>\<open>ObjectId.is_valid\<close> rejects).  The order of an entry is taken to
  be an integer, the type of the field it is written to.  The loop issues one
  \<^verbatim>\<open>update_one\<close> for each entry whose identifier is valid.
\<close>

definition reorder_step :: "string \<Rightarrow> string option \<times> int \<Rightarrow> Trip list \<Rightarrow> Trip list" where
  "reorder_step trip_id order_data ts =
     (case fst order_data of
        None \<Rightarrow> ts
      | Some activity_id \<Rightarrow>
          if is_valid activity_id
          then update_one
                 (\<lambda>t. id_T t = ObjectId trip_id
                       \<and> ObjectId activity_id \<in> set (map id_A (activities t)))
                 (\<lambda>t. t\<lparr>activities := set_positional
                          (\<lambda>a. id_A a = ObjectId activity_id) (\<lambda>a. a\<lparr>order := snd order_data\<rparr>)
                          (activities t)\<rparr>)
                 ts
          else ts)"

fun reorder_loop :: "string \<Rightarrow> (string option \<times> int) list \<Rightarrow> Trip list \<Rightarrow> Trip list" where
  "reorder_loop trip_id [] ts = ts"
| "reorder_loop trip_id (order_data # rest) ts =
     reorder_loop trip_id rest (reorder_step trip_id order_data ts)"

definition reorder_activities ::
  "Database \<Rightarrow> string \<Rightarrow> (string option \<times> int) list \<Rightarrow> User
     \<Rightarrow> (HTTPException + string) \<times> Database" where
  "reorder_activities db trip_id activity_orders current_user =
     (if \<not> is_valid trip_id then (Inl (HTTPException 400 ''Invalid trip ID''), db)
      else case find_one (\<lambda>t. id_T t = ObjectId trip_id) (trips db) of
        None \<Rightarrow> (Inl (HTTPException 404 ''Trip not found''), db)
      | Some trip_obj \<Rightarrow>
          if owner_id trip_obj \<noteq> id_U current_user
             \<and> id_U current_user \<notin> set (collaborators trip_obj)
          then (Inl (HTTPException 403 ''Access denied''), db)
          else (Inr ''Activities reordered successfully'',
                db\<lparr>trips := reorder_loop trip_id activity_orders (trips db)\<rparr>))"

section \<open>\<^verbatim>\<open>routers/expenses_router.py\<close>\<close>

definition create_expense ::
  "Database \<Rightarrow> string \<Rightarrow> Expense \<Rightarrow> User \<Rightarrow> string \<Rightarrow> (HTTPException + Expense) \<times> Database" where
  "create_expense db trip_id expense current_user new_oid =
     (if \<not> is_valid trip_id then (Inl (HTTPException 400 ''Invalid trip ID''), db)
      else case find_one (\<lambda>t. id_T t = ObjectId trip_id) (trips db) of
        None \<Rightarrow> (Inl (HTTPException 404 ''Trip not found''), db)
      | Some trip_obj \<Rightarrow>
          if owner_id trip_obj \<noteq> id_U current_user
             \<and> id_U current_user \<notin> set (collaborators trip_obj)
          then (Inl (HTTPException 403 ''Access denied''), db)
          else let expense_dict = expense\<lparr>id_E := new_oid\<rparr>
               in (Inr expense_dict,
                   db\<lparr>trips := update_one (\<lambda>t. id_T t = ObjectId trip_id)
                                  (\<lambda>t. t\<lparr>expenses := push expense_dict (expenses t)\<rparr>)
                                  (trips db)\<rparr>))"


definition update_expense ::
  "Database \<Rightarrow> string \<Rightarrow> string \<Rightarrow> Expense \<Rightarrow> User \<Rightarrow> (HTTPException + Expense) \<times> Database" where
  "update_expense db trip_id expense_id expense_update current_user =
     (if \<not> is_valid trip_id \<or> \<not> is_valid expense_id
      then (Inl (HTTPException 400 ''Invalid ID''), db)
      else case find_one (\<lambda>t. id_T t = ObjectId trip_id) (trips db) of
        None \<Rightarrow> (Inl (HTTPException 404 ''Trip not found''), db)
      | Some trip_obj \<Rightarrow>
          if owner_id trip_obj \<noteq> id_U current_user
             \<and> id_U current_user \<notin> set (collaborators trip_obj)
          then (Inl (HTTPException 403 ''Access denied''), db)
          else let expense_dict = expense_update\<lparr>id_E := ObjectId expense_id\<rparr>
               in (Inr expense_dict,
                   db\<lparr>trips := update_one
                        (\<lambda>t. id_T t = ObjectId trip_id
                              \<and> ObjectId expense_id \<in> set (map id_E (expenses t)))
                        (\<lambda>t. t\<lparr>expenses := set_positional
                                 (\<lambda>e. id_E e = ObjectId expense_id) (\<lambda>e. expense_dict)
                                 (expenses t)\<rparr>)
                        (trips db)\<rparr>))"

definition delete_expense ::
  "Database \<Rightarrow> string \<Rightarrow> string \<Rightarrow> User \<Rightarrow> (HTTPException + string) \<times> Database" where
  "delete_expense db trip_id expense_id current_user =
     (if \<not> is_valid trip_id \<or> \<not> is_valid expense_id
      then (Inl (HTTPException 400 ''Invalid ID''), db)
      else case find_one (\<lambda>t. id_T t = ObjectId trip_id) (trips db) of
        None \<Rightarrow> (Inl (HTTPException 404 ''Trip not found''), db)
      | Some trip_obj \<Rightarrow>
          if owner_id trip_obj \<noteq> id_U current_user
             \<and> id_U current_user \<notin> set (collaborators trip_obj)
          then (Inl (HTTPException 403 ''Access denied''), db)
          else (Inr ''Expense deleted successfully'',
                db\<lparr>trips := update_one (\<lambda>t. id_T t = ObjectId trip_id)
                     (\<lambda>t. t\<lparr>expenses := pull (\<lambda>e. id_E e = ObjectId expense_id) (expenses t)\<rparr>)
                     (trips db)\<rparr>))"

text \<open>
  The summary: \<^verbatim>\<open>sum(...)\<close> adds the amounts from the left, starting at 0, and the loop
  over the expenses fills the dictionary \<^verbatim>\<open>category_totals\<close>.
\<close>

record ExpenseSummary =
  budget_S :: real
  total_spent :: real
  remaining :: real
  category_breakdown :: "string \<rightharpoonup> real"

fun category_loop :: "Expense list \<Rightarrow> (string \<rightharpoonup> real) \<Rightarrow> (string \<rightharpoonup> real)" where
  "category_loop [] category_totals = category_totals"
| "category_loop (expense # rest) category_totals =
     category_loop rest
       (case category_totals (category_E expense) of
          Some v \<Rightarrow> category_totals(category_E expense \<mapsto> v + amount expense)
        | None \<Rightarrow> category_totals(category_E expense \<mapsto> amount expense))"

definition get_expense_summary ::
  "Database \<Rightarrow> string \<Rightarrow> User \<Rightarrow> HTTPException + ExpenseSummary" where
  "get_expense_summary db trip_id current_user =
     (if \<not> is_valid trip_id then Inl (HTTPException 400 ''Invalid trip ID'')
      else case find_one (\<lambda>t. id_T t = ObjectId trip_id) (trips db) of
        None \<Rightarrow> Inl (HTTPException 404 ''Trip not found'')
      | Some trip_obj \<Rightarrow>
          if owner_id trip_obj \<noteq> id_U current_user
             \<and> id_U current_user \<notin> set (collaborators trip_obj)
          then Inl (HTTPException 403 ''Access denied'')
          else let total = foldl (+) 0 (map amount (expenses trip_obj));
                   budget' = budget trip_obj
               in Inr \<lparr>budget_S = budget', total_spent = total,
                       remaining = budget' - total,
                       category_breakdown = category_loop (expenses trip_obj) Map.empty\<rparr>)"

section \<open>\<^verbatim>\<open>routers/packing_router.py\<close>\<close>

definition create_packing_item ::
  "Database \<Rightarrow> string \<Rightarrow> PackingItem \<Rightarrow> User \<Rightarrow> string
     \<Rightarrow> (HTTPException + PackingItem) \<times> Database" where
  "create_packing_item db trip_id item current_user new_oid =
     (if \<not> is_valid trip_id then (Inl (HTTPException 400 ''Invalid trip ID''), db)
      else case find_one (\<lambda>t. id_T t = ObjectId trip_id) (trips db) of
        None \<Rightarrow> (Inl (HTTPException 404 ''Trip not found''), db)
      | Some trip_obj \<Rightarrow>
          if owner_id trip_obj \<noteq> id_U current_user
             \<and> id_U current_user \<notin> set (collaborators trip_obj)
          then (Inl (HTTPException 403 ''Access denied''), db)
          else let item_dict = item\<lparr>id_P := new_oid\<rparr>
               in (Inr item_dict,
                   db\<lparr>trips := update_one (\<lambda>t. id_T t = ObjectId trip_id)
                                  (\<lambda>t. t\<lparr>packing_items := push item_dict (packing_items t)\<rparr>)
                                  (trips db)\<rparr>))"


definition update_packing_item ::
  "Database \<Rightarrow> string \<Rightarrow> string \<Rightarrow> PackingItem \<Rightarrow> User
     \<Rightarrow> (HTTPException + PackingItem) \<times> Database" where
  "update_packing_item db trip_id item_id item_update current_user =
     (if \<not> is_valid trip_id \<or> \<not> is_valid item_id
      then (Inl (HTTPException 400 ''Invalid ID''), db)
      else case find_one (\<lambda>t. id_T t = ObjectId trip_id) (trips db) of
        None \<Rightarrow> (Inl (HTTPException 404 ''Trip not found''), db)
      | Some trip_obj \<Rightarrow>
          if owner_id trip_obj \<noteq> id_U current_user
             \<and> id_U current_user \<notin> set (collaborators trip_obj)
          then (Inl (HTTPException 403 ''Access denied''), db)
          else let item_dict = item_update\<lparr>id_P := ObjectId item_id\<rparr>
               in (Inr item_dict,
                   db\<lparr>trips := update_one
                        (\<lambda>t. id_T t = ObjectId trip_id
                              \<and> ObjectId item_id \<in> set (map id_P (packing_items t)))
                        (\<lambda>t. t\<lparr>packing_items := set_positional
                                 (\<lambda>i. id_P i = ObjectId item_id) (\<lambda>i. item_dict)
                                 (packing_items t)\<rparr>)
                        (trips db)\<rparr>))"

definition delete_packing_item ::
  "Database \<Rightarrow> string \<Rightarrow> string \<Rightarrow> User \<Rightarrow> (HTTPException + string) \<times> Database" where
  "delete_packing_item db trip_id item_id current_user =
     (if \<not> is_valid trip_id \<or> \<not> is_valid item_id
      then (Inl (HTTPException 400 ''Invalid ID''), db)
      else case find_one (\<lambda>t. id_T t = ObjectId trip_id) (trips db) of
        None \<Rightarrow> (Inl (HTTPException 404 ''Trip not found''), db)
      | Some trip_obj \<Rightarrow>
          if owner_id trip_obj \<noteq> id_U current_user
             \<and> id_U current_user \<notin> set (collaborators trip_obj)
          then (Inl (HTTPException 403 ''Access denied''), db)
          else (Inr ''Packing item deleted successfully'',
                db\<lparr>trips := update_one (\<lambda>t. id_T t = ObjectId trip_id)
                     (\<lambda>t. t\<lparr>packing_items := pull (\<lambda>i. id_P i = ObjectId item_id)
                                               (packing_items t)\<rparr>)
                     (trips db)\<rparr>))"

text \<open>
  The toggle searches the parsed trip for the first item whose identifier, as a string,
  equals the path parameter as it was sent, and writes the negated flag through the
  positional operator.
\<close>

definition toggle_packing_item ::
  "Database \<Rightarrow> string \<Rightarrow> string \<Rightarrow> User \<Rightarrow> (HTTPException + bool) \<times> Database" where
  "toggle_packing_item db trip_id item_id current_user =
     (if \<not> is_valid trip_id \<or> \<not> is_valid item_id
      then (Inl (HTTPException 400 ''Invalid ID''), db)
      else case find_one (\<lambda>t. id_T t = ObjectId trip_id) (trips db) of
        None \<Rightarrow> (Inl (HTTPException 404 ''Trip not found''), db)
      | Some trip_obj \<Rightarrow>
          if owner_id trip_obj \<noteq> id_U current_user
             \<and> id_U current_user \<notin> set (collaborators trip_obj)
          then (Inl (HTTPException 403 ''Access denied''), db)
          else (case find (\<lambda>item. id_P item = item_id) (packing_items trip_obj) of
                  Some item \<Rightarrow>
                    let new_packed_status = (\<not> packed item)
                    in (Inr new_packed_status,
                        db\<lparr>trips := update_one
                             (\<lambda>t. id_T t = ObjectId trip_id
                                   \<and> ObjectId item_id \<in> set (map id_P (packing_items t)))
                             (\<lambda>t. t\<lparr>packing_items := set_positional
                                      (\<lambda>i. id_P i = ObjectId item_id)
                                      (\<lambda>i. i\<lparr>packed := new_packed_status\<rparr>)
                                      (packing_items t)\<rparr>)
                             (trips db)\<rparr>)
                | None \<Rightarrow> (Inl (HTTPException 404 ''Packing item not found''), db)))"




section \<open>The export handlers of \<^verbatim>\<open>routers/trips_router.py\<close>\<close>






section \<open>The access rule in the specification's words\<close>




section \<open>What a mutation leaves alone\<close>

text \<open>
  \<open>scalars_unchanged t t'\<close>: the trip \<open>t'\<close> has the scalar fields of \<open>t\<close>.  The three
  relations after it add the two embedded collections that a mutation of the third must
  not touch, and \<open>frame R\<close> lifts a relation on trips to databases: the trips are related
  one by one, in their order, and the other collections are the same.
\<close>

definition scalars_unchanged :: "Trip \<Rightarrow> Trip \<Rightarrow> bool" where
  "scalars_unchanged t t' =
     (id_T t' = id_T t \<and> title_T t' = title_T t \<and> destination t' = destination t
      \<and> start_date t' = start_date t \<and> end_date t' = end_date t \<and> budget t' = budget t
      \<and> owner_id t' = owner_id t \<and> collaborators t' = collaborators t
      \<and> notes_T t' = notes_T t \<and> created_at t' = created_at t
      \<and> updated_at t' = updated_at t)"

definition only_activities_differ :: "Trip \<Rightarrow> Trip \<Rightarrow> bool" where
  "only_activities_differ t t' =
     (scalars_unchanged t t' \<and> expenses t' = expenses t \<and> packing_items t' = packing_items t)"

definition only_expenses_differ :: "Trip \<Rightarrow> Trip \<Rightarrow> bool" where
  "only_expenses_differ t t' =
     (scalars_unchanged t t' \<and> activities t' = activities t \<and> packing_items t' = packing_items t)"

definition only_packing_items_differ :: "Trip \<Rightarrow> Trip \<Rightarrow> bool" where
  "only_packing_items_differ t t' =
     (scalars_unchanged t t' \<and> activities t' = activities t \<and> expenses t' = expenses t)"

definition same_updated_at :: "Trip \<Rightarrow> Trip \<Rightarrow> bool" where
  "same_updated_at t t' = (updated_at t' = updated_at t)"

definition same_owner :: "Trip \<Rightarrow> Trip \<Rightarrow> bool" where
  "same_owner t t' = (owner_id t' = owner_id t)"

definition frame :: "(Trip \<Rightarrow> Trip \<Rightarrow> bool) \<Rightarrow> Database \<Rightarrow> Database \<Rightarrow> bool" where
  "frame R db db' =
     (list_all2 R (trips db) (trips db') \<and> users db' = users db
      \<and> activities_coll db' = activities_coll db \<and> expenses_coll db' = expenses_coll db)"

section \<open>What a reorder request asks for\<close>

text \<open>
  \<open>final_order activity_orders x\<close> is the order that a reorder request assigns to the
  activity with identifier \<open>x\<close>: the one of the last entry whose identifier is valid and
  denotes \<open>x\<close>, if there is such an entry.
\<close>

fun final_order :: "(string option \<times> int) list \<Rightarrow> string \<Rightarrow> int option" where
  "final_order [] x = None"
| "final_order (order_data # rest) x =
     (case final_order rest x of
        Some n \<Rightarrow> Some n
      | None \<Rightarrow>
          (case fst order_data of
             None \<Rightarrow> None
           | Some activity_id \<Rightarrow>
               if is_valid activity_id \<and> ObjectId activity_id = x
               then Some (snd order_data) else None))"

section \<open>Example data\<close>

definition alice :: User where
  "alice = \<lparr>id_U = ''aaaaaaaaaaaaaaaaaaaaaaaa'', email = ''alice@example.com'',
            username = ''alice'', name_U = Some ''Alice'', hashed_password = ''h1'',
            created_at_U = 1, profile_picture = None\<rparr>"

definition bob :: User where
  "bob = \<lparr>id_U = ''bbbbbbbbbbbbbbbbbbbbbbbb'', email = ''bob@example.com'',
          username = ''bob'', name_U = None, hashed_password = ''h2'',
          created_at_U = 2, profile_picture = None\<rparr>"

definition carol :: User where
  "carol = \<lparr>id_U = ''cccccccccccccccccccccccc'', email = ''carol@example.com'',
            username = ''carol'', name_U = None, hashed_password = ''h3'',
            created_at_U = 3, profile_picture = None\<rparr>"

definition museum :: Activity where
  "museum = \<lparr>id_A = ''0000000000000000000000a1'', title_A = ''Louvre'', time = ''10:00'',
             location = ''Paris'', activity_type = ''activity'', notes_A = Some [],
             cost = Some 17, day = 1, order = 0\<rparr>"

definition dinner :: Activity where
  "dinner = \<lparr>id_A = ''0000000000000000000000a2'', title_A = ''Dinner'', time = ''20:00'',
             location = ''Montmartre'', activity_type = ''food'', notes_A = None,
             cost = None, day = 1, order = 1\<rparr>"

definition picnic :: Activity where
  "picnic = \<lparr>id_A = ''0000000000000000000000c1'', title_A = ''Picnic'', time = ''13:00'',
             location = ''Tuileries'', activity_type = ''food'', notes_A = Some ''bring wine'',
             cost = Some 25, day = 2, order = 5\<rparr>"

definition lunch :: Expense where
  "lunch = \<lparr>id_E = ''0000000000000000000000e1'', title_E = ''Lunch'', amount = 100,
            category_E = ''food'', date = 10, notes_E = None\<rparr>"

definition snack :: Expense where
  "snack = \<lparr>id_E = ''0000000000000000000000e2'', title_E = ''Snack'', amount = 50,
            category_E = ''food'', date = 11, notes_E = None\<rparr>"

definition metro :: Expense where
  "metro = \<lparr>id_E = ''0000000000000000000000e3'', title_E = ''Metro'', amount = 30,
            category_E = ''transport'', date = 12, notes_E = Some ''carnet''\<rparr>"

definition passport :: PackingItem where
  "passport = \<lparr>id_P = ''0000000000000000000000f1'', name_P = ''Passport'',
               category_P = ''documents'', packed = False, notes_P = None\<rparr>"

definition paris :: Trip where
  "paris = \<lparr>id_T = ''111111111111111111111111'', title_T = ''Paris'',
            destination = ''France'', start_date = 100, end_date = 200, budget = 500,
            owner_id = ''aaaaaaaaaaaaaaaaaaaaaaaa'',
            collaborators = [''bbbbbbbbbbbbbbbbbbbbbbbb''],
            activities = [museum, dinner], expenses = [lunch, snack, metro],
            packing_items = [passport], notes_T = Some [],
            created_at = 50, updated_at = 60\<rparr>"

definition db0 :: Database where
  "db0 = \<lparr>trips = [paris], users = [alice, bob, carol],
          activities_coll = [], expenses_coll = []\<rparr>"

lemmas example_defs =
  db0_def paris_def alice_def bob_def carol_def museum_def dinner_def picnic_def
  lunch_def snack_def metro_def passport_def
  is_valid_def hexdigit_def ObjectId_def lower_hex_def find_one_def push_def pull_def

section \<open>Facts about the store operations\<close>

lemma find_update_first:
  assumes "\<And>d. q d \<Longrightarrow> p d" and "\<And>d. p (u d) = p d"
  shows "find p (update_first q u ds) = map_option (\<lambda>d. if q d then u d else d) (find p ds)"
  using assms by (induction ds) auto

lemma find_after_trip_update:
  assumes "find_one (\<lambda>t. id_T t = k) ts = Some T"
    and "\<And>t. q t \<Longrightarrow> id_T t = k" and "\<And>t. id_T (u t) = id_T t"
  shows "find_one (\<lambda>t. id_T t = k) (update_first q u ts) = Some (if q T then u T else T)"
  using assms by (simp add: find_one_def find_update_first)

lemma find_one_holds: "find_one q ds = Some d \<Longrightarrow> q d"
  by (auto simp: find_one_def find_Some_iff)

lemma update_first_absent: "\<forall>d\<in>set ds. \<not> q d \<Longrightarrow> update_first q u ds = ds"
  by (induction ds) auto

lemma update_first_fixed: "find q ds = Some d \<Longrightarrow> u d = d \<Longrightarrow> update_first q u ds = ds"
  by (induction ds) (auto split: if_splits)

lemma update_first_split:
  "\<forall>x\<in>set xs. \<not> q x \<Longrightarrow> q a \<Longrightarrow> update_first q u (xs @ a # ys) = xs @ u a # ys"
  by (induction xs) auto

lemma update_first_distinct:
  "distinct (map k xs) \<Longrightarrow>
   update_first (\<lambda>x. k x = v) u xs = map (\<lambda>x. if k x = v then u x else x) xs"
proof (induction xs)
  case Nil
  then show ?case by simp
next
  case (Cons x xs)
  show ?case
  proof (cases "k x = v")
    case True
    from Cons.prems have "k x \<notin> k ` set xs" by simp
    with True have "\<forall>y\<in>set xs. k y \<noteq> v" by blast
    then have "map (\<lambda>x. if k x = v then u x else x) xs = xs"
      by (induction xs) auto
    with True show ?thesis by simp
  next
    case False
    with Cons show ?thesis by simp
  qed
qed

lemma list_all2_update_first:
  "(\<And>d. R d d) \<Longrightarrow> (\<And>d. R d (u d)) \<Longrightarrow> list_all2 R ds (update_first q u ds)"
  by (induction ds) (auto simp: list_all2_refl)

lemma find_None_absent: "find (\<lambda>d. k d = v) ds = None \<longleftrightarrow> v \<notin> set (map k ds)"
  by (induction ds) auto

lemma foldl_plus_sum_list: "foldl (+) a xs = a + sum_list (xs :: real list)"
  by (induction xs arbitrary: a) auto

lemma category_loop_eq:
  "category_loop es m c =
     (if c \<in> set (map category_E es)
      then Some ((case m c of None \<Rightarrow> 0 | Some v \<Rightarrow> v)
                 + sum_list (map amount (filter (\<lambda>e. category_E e = c) es)))
      else m c)"
proof (induction es arbitrary: m)
  case Nil
  show ?case by simp
next
  case (Cons e es)
  have absent: "c \<notin> set (map category_E es) \<Longrightarrow> filter (\<lambda>e. category_E e = c) es = []"
    by (induction es) auto
  show ?case
    using absent by (cases "m (category_E e)") (auto simp: Cons.IH)
qed

section \<open>Access control\<close>









section \<open>The owner and the collaborators\<close>

text \<open>
  No operation writes \<open>owner_id\<close>, and \<open>join_trip\<close> refuses the owner, so it keeps the
  owner out of the collaborators.
\<close>

lemma owner_id_immutable:
  "list_all2 same_owner (trips db) (trips (snd (update_trip db trip_id upd U now)))"
  "list_all2 same_owner (trips db) (trips (snd (add_collaborator db trip_id user_email U)))"
  "list_all2 same_owner (trips db) (trips (snd (join_trip db trip_id U)))"
  by (auto simp: update_trip_def add_collaborator_def join_trip_def Let_def same_owner_def
      set_update_data_def list_all2_refl intro!: list_all2_update_first split: option.splits)

lemma list_all_update_found:
  "list_all I ts \<Longrightarrow> find q ts = Some T \<Longrightarrow> (I T \<Longrightarrow> I (u T))
     \<Longrightarrow> list_all I (update_first q u ts)"
  by (induction ts) (auto split: if_splits)

lemma join_trip_keeps_owner_out:
  assumes "list_all (\<lambda>t. owner_id t \<notin> set (collaborators t)) (trips db)"
  shows "list_all (\<lambda>t. owner_id t \<notin> set (collaborators t)) (trips (snd (join_trip db trip_id U)))"
  using assms
  by (auto simp: join_trip_def Let_def find_one_def push_def
      intro!: list_all_update_found split: option.splits dest: find_one_holds)

text \<open>
  C2.  After any sequence of trip updates, collaborator additions and joins, a trip has
  the owner it was created with, and the owner is never one of its collaborators.  The
  first half is the lemma above.  The second half is not what \<open>add_collaborator\<close> does:
  it has no test for the owner, while \<open>join_trip\<close> has one.  When the owner of a trip
  whose collaborators do not include the owner adds their own e-mail address, the handler
  answers with success and the owner's identifier is appended to the collaborators.
\<close>

theorem add_collaborator_lists_owner:
  "owner_id paris = id_U alice
   \<and> email alice = ''alice@example.com''
   \<and> owner_id paris \<notin> set (collaborators paris)
   \<and> add_collaborator db0 ''111111111111111111111111'' ''alice@example.com'' alice
       = (Inr ''Collaborator added successfully'',
          db0\<lparr>trips := [paris\<lparr>collaborators :=
                 [''bbbbbbbbbbbbbbbbbbbbbbbb'', ''aaaaaaaaaaaaaaaaaaaaaaaa'']\<rparr>]\<rparr>)
   \<and> owner_id paris \<in> set [''bbbbbbbbbbbbbbbbbbbbbbbb'', ''aaaaaaaaaaaaaaaaaaaaaaaa'']"
  by (simp add: add_collaborator_def example_defs)

section \<open>Joining a trip\<close>

text \<open>
  C8.  For an existing trip \<open>T\<close> and a user \<open>U\<close>, \<open>join_trip\<close> fails with the "already
  owner" error when \<open>U\<close> is the owner, fails with the "already collaborator" error when
  \<open>U\<close> is listed in \<open>collaborators T\<close>, and otherwise appends exactly \<open>U\<close> to the
  collaborators and returns the updated trip, which is also the trip then stored.  In the
  two failure cases the database is returned as it was.
\<close>

theorem join_trip_outcomes:
  assumes "is_valid trip_id"
    and "find_one (\<lambda>t. id_T t = ObjectId trip_id) (trips db) = Some T"
  shows "(owner_id T = id_U U \<longrightarrow>
            join_trip db trip_id U
              = (Inl (HTTPException 400 ''You are already the owner of this trip''), db))
       \<and> (owner_id T \<noteq> id_U U \<and> id_U U \<in> set (collaborators T) \<longrightarrow>
            join_trip db trip_id U
              = (Inl (HTTPException 400 ''You are already a collaborator of this trip''), db))
       \<and> (owner_id T \<noteq> id_U U \<and> id_U U \<notin> set (collaborators T) \<longrightarrow>
            fst (join_trip db trip_id U) = Inr (T\<lparr>collaborators := collaborators T @ [id_U U]\<rparr>)
            \<and> find_one (\<lambda>t. id_T t = ObjectId trip_id) (trips (snd (join_trip db trip_id U)))
                = Some (T\<lparr>collaborators := collaborators T @ [id_U U]\<rparr>))"
  using assms find_one_holds [OF assms(2)]
  by (simp add: join_trip_def reread_def Let_def push_def find_after_trip_update)

theorem join_trip_outcomes_witness:
  "join_trip db0 ''111111111111111111111111'' alice
     = (Inl (HTTPException 400 ''You are already the owner of this trip''), db0)
   \<and> join_trip db0 ''111111111111111111111111'' bob
     = (Inl (HTTPException 400 ''You are already a collaborator of this trip''), db0)
   \<and> fst (join_trip db0 ''111111111111111111111111'' carol)
     = Inr (paris\<lparr>collaborators := [''bbbbbbbbbbbbbbbbbbbbbbbb'', ''cccccccccccccccccccccccc'']\<rparr>)"
proof -
  have v: "is_valid ''111111111111111111111111''" by (simp add: example_defs)
  have f: "find_one (\<lambda>t. id_T t = ObjectId ''111111111111111111111111'') (trips db0) = Some paris"
    by (simp add: example_defs)
  show ?thesis
    using join_trip_outcomes [OF v f, of alice] join_trip_outcomes [OF v f, of bob]
      join_trip_outcomes [OF v f, of carol]
    by (simp add: paris_def alice_def bob_def carol_def)
qed

section \<open>Adding a collaborator\<close>

lemma add_collaborator_member:
  assumes "is_valid trip_id"
    and "find_one (\<lambda>t. id_T t = ObjectId trip_id) (trips db) = Some T"
    and "owner_id T = id_U U"
    and "find_one (\<lambda>u. email u = user_email) (users db) = Some V"
    and "id_U V \<in> set (collaborators T)"
  shows "add_collaborator db trip_id user_email U = (Inr ''Collaborator added successfully'', db)"
  using assms by (simp add: add_collaborator_def)

text \<open>
  C7.  \<open>add_collaborator\<close> is idempotent: a second call with the same arguments returns
  what the first returned and leaves the database the first one left, so the
  collaborators are those of a single call.  When the user found for the e-mail address is
  already a collaborator, the call succeeds and changes nothing.
\<close>

theorem add_collaborator_idempotent:
  "add_collaborator (snd (add_collaborator db trip_id user_email U)) trip_id user_email U
     = add_collaborator db trip_id user_email U
   \<and> (is_valid trip_id
        \<and> find_one (\<lambda>t. id_T t = ObjectId trip_id) (trips db) = Some T
        \<and> owner_id T = id_U U
        \<and> find_one (\<lambda>u. email u = user_email) (users db) = Some V
        \<and> id_U V \<in> set (collaborators T)
      \<longrightarrow> add_collaborator db trip_id user_email U
            = (Inr ''Collaborator added successfully'', db))"
proof (intro conjI impI)
  let ?p = "\<lambda>t. id_T t = ObjectId trip_id"
  let ?once = "add_collaborator db trip_id user_email U"
  show "add_collaborator (snd ?once) trip_id user_email U = ?once"
  proof (cases "is_valid trip_id")
    case False
    then show ?thesis by (simp add: add_collaborator_def)
  next
    case valid: True
    show ?thesis
    proof (cases "find_one ?p (trips db)")
      case None
      with valid show ?thesis by (simp add: add_collaborator_def)
    next
      case (Some T0)
      note found = this
      show ?thesis
      proof (cases "owner_id T0 = id_U U")
        case False
        with valid found show ?thesis by (simp add: add_collaborator_def)
      next
        case owner: True
        show ?thesis
        proof (cases "find_one (\<lambda>u. email u = user_email) (users db)")
          case None
          with valid found owner show ?thesis by (simp add: add_collaborator_def)
        next
          case (Some V0)
          note user = this
          show ?thesis
          proof (cases "id_U V0 \<in> set (collaborators T0)")
            case True
            with valid found owner user show ?thesis by (simp add: add_collaborator_def)
          next
            case False
            let ?u = "\<lambda>t. t\<lparr>collaborators := push (id_U V0) (collaborators t)\<rparr>"
            let ?db1 = "db\<lparr>trips := update_one ?p ?u (trips db)\<rparr>"
            have once: "?once = (Inr ''Collaborator added successfully'', ?db1)"
              using valid found owner user False by (simp add: add_collaborator_def)
            have found1: "find_one ?p (trips ?db1) = Some (?u T0)"
              using find_after_trip_update [OF found, of ?p ?u] find_one_holds [OF found]
              by simp
            have "add_collaborator ?db1 trip_id user_email U
                    = (Inr ''Collaborator added successfully'', ?db1)"
              by (rule add_collaborator_member [OF valid found1, where V = V0])
                 (use owner user in \<open>simp_all add: push_def\<close>)
            with once show ?thesis by simp
          qed
        qed
      qed
    qed
  qed
next
  assume "is_valid trip_id
        \<and> find_one (\<lambda>t. id_T t = ObjectId trip_id) (trips db) = Some T
        \<and> owner_id T = id_U U
        \<and> find_one (\<lambda>u. email u = user_email) (users db) = Some V
        \<and> id_U V \<in> set (collaborators T)"
  then show "add_collaborator db trip_id user_email U
            = (Inr ''Collaborator added successfully'', db)"
    by (simp add: add_collaborator_member)
qed

theorem add_collaborator_idempotent_witness:
  "add_collaborator (snd (add_collaborator db0 ''111111111111111111111111'' ''carol@example.com'' alice))
       ''111111111111111111111111'' ''carol@example.com'' alice
     = (Inr ''Collaborator added successfully'',
        db0\<lparr>trips := [paris\<lparr>collaborators :=
               [''bbbbbbbbbbbbbbbbbbbbbbbb'', ''cccccccccccccccccccccccc'']\<rparr>]\<rparr>)
   \<and> add_collaborator db0 ''111111111111111111111111'' ''bob@example.com'' alice
     = (Inr ''Collaborator added successfully'', db0)"
proof -
  have once: "add_collaborator db0 ''111111111111111111111111'' ''carol@example.com'' alice
     = (Inr ''Collaborator added successfully'',
        db0\<lparr>trips := [paris\<lparr>collaborators :=
               [''bbbbbbbbbbbbbbbbbbbbbbbb'', ''cccccccccccccccccccccccc'']\<rparr>]\<rparr>)"
    by (simp add: add_collaborator_def example_defs)
  have pre: "is_valid ''111111111111111111111111''
        \<and> find_one (\<lambda>t. id_T t = ObjectId ''111111111111111111111111'') (trips db0) = Some paris
        \<and> owner_id paris = id_U alice
        \<and> find_one (\<lambda>u. email u = ''bob@example.com'') (users db0) = Some bob
        \<and> id_U bob \<in> set (collaborators paris)"
    by (simp add: example_defs)
  show ?thesis
    using add_collaborator_idempotent
            [of db0 "''111111111111111111111111''" "''carol@example.com''" alice paris bob]
          add_collaborator_idempotent
            [of db0 "''111111111111111111111111''" "''bob@example.com''" alice paris bob]
          once pre
    by simp
qed

section \<open>Creating an activity and reading it back\<close>




section \<open>Deleting what is not there\<close>

lemma pull_absent: "\<forall>x\<in>set xs. \<not> q x \<Longrightarrow> pull q xs = xs"
  by (simp add: pull_def)

text \<open>
  C4.  Deleting a packing item whose well-formed identifier is absent from
  \<open>packing_items T\<close> succeeds and leaves the database unchanged; deleting a trip whose
  identifier matches no stored trip fails with 404 "Trip not found".  (A path parameter
  that is not an identifier at all fails as well, with the 400 of the first check.)
\<close>

theorem delete_absent_item_and_trip:
  "(is_valid trip_id \<and> is_valid item_id
      \<and> find_one (\<lambda>t. id_T t = ObjectId trip_id) (trips db) = Some T
      \<and> (owner_id T = id_U U \<or> id_U U \<in> set (collaborators T))
      \<and> ObjectId item_id \<notin> set (map id_P (packing_items T))
    \<longrightarrow> delete_packing_item db trip_id item_id U
          = (Inr ''Packing item deleted successfully'', db))
   \<and> (is_valid trip_id \<and> ObjectId trip_id \<notin> set (map id_T (trips db))
    \<longrightarrow> delete_trip db trip_id U = (Inl (HTTPException 404 ''Trip not found''), db))
   \<and> (ObjectId trip_id \<notin> set (map id_T (trips db))
    \<longrightarrow> isl (fst (delete_trip db trip_id U)) \<and> snd (delete_trip db trip_id U) = db)"
proof (intro conjI impI)
  assume pre: "is_valid trip_id \<and> is_valid item_id
      \<and> find_one (\<lambda>t. id_T t = ObjectId trip_id) (trips db) = Some T
      \<and> (owner_id T = id_U U \<or> id_U U \<in> set (collaborators T))
      \<and> ObjectId item_id \<notin> set (map id_P (packing_items T))"
  let ?p = "\<lambda>t. id_T t = ObjectId trip_id"
  let ?u = "\<lambda>t. t\<lparr>packing_items := pull (\<lambda>i. id_P i = ObjectId item_id) (packing_items t)\<rparr>"
  from pre have "\<forall>i\<in>set (packing_items T). id_P i \<noteq> ObjectId item_id"
    by force
  then have "pull (\<lambda>i. id_P i = ObjectId item_id) (packing_items T) = packing_items T"
    by (rule pull_absent)
  then have "?u T = T" by simp
  with pre have "update_one ?p ?u (trips db) = trips db"
    by (intro update_first_fixed [of ?p _ T]) (simp_all add: find_one_def)
  with pre show "delete_packing_item db trip_id item_id U
          = (Inr ''Packing item deleted successfully'', db)"
    by (auto simp: delete_packing_item_def)
next
  assume pre: "is_valid trip_id \<and> ObjectId trip_id \<notin> set (map id_T (trips db))"
  then have "find_one (\<lambda>t. id_T t = ObjectId trip_id) (trips db) = None"
    unfolding find_one_def using find_None_absent [of id_T "ObjectId trip_id" "trips db"] by blast
  with pre show "delete_trip db trip_id U = (Inl (HTTPException 404 ''Trip not found''), db)"
    by (simp add: delete_trip_def)
next
  assume "ObjectId trip_id \<notin> set (map id_T (trips db))"
  then have none: "find_one (\<lambda>t. id_T t = ObjectId trip_id) (trips db) = None"
    unfolding find_one_def using find_None_absent [of id_T "ObjectId trip_id" "trips db"] by blast
  from none show "isl (fst (delete_trip db trip_id U))"
    by (simp add: delete_trip_def)
  from none show "snd (delete_trip db trip_id U) = db"
    by (simp add: delete_trip_def)
qed

theorem delete_absent_item_and_trip_witness:
  "delete_packing_item db0 ''111111111111111111111111'' ''0000000000000000000000f9'' bob
     = (Inr ''Packing item deleted successfully'', db0)
   \<and> delete_trip db0 ''222222222222222222222222'' alice
     = (Inl (HTTPException 404 ''Trip not found''), db0)"
proof -
  have pre1: "is_valid ''111111111111111111111111'' \<and> is_valid ''0000000000000000000000f9''
      \<and> find_one (\<lambda>t. id_T t = ObjectId ''111111111111111111111111'') (trips db0) = Some paris
      \<and> (owner_id paris = id_U bob \<or> id_U bob \<in> set (collaborators paris))
      \<and> ObjectId ''0000000000000000000000f9'' \<notin> set (map id_P (packing_items paris))"
    by (simp add: example_defs)
  have pre2: "is_valid ''222222222222222222222222''
      \<and> ObjectId ''222222222222222222222222'' \<notin> set (map id_T (trips db0))"
    by (simp add: example_defs)
  show ?thesis
    using delete_absent_item_and_trip
            [of "''111111111111111111111111''" "''0000000000000000000000f9''" db0 paris bob]
          delete_absent_item_and_trip
            [of "''222222222222222222222222''" "''0000000000000000000000f9''" db0 paris alice]
          pre1 pre2
    by simp
qed

section \<open>Update by identifier\<close>

lemma update_first_no_match: "v \<notin> set (map k xs) \<Longrightarrow> update_first (\<lambda>x. k x = v) u xs = xs"
  by (rule update_first_absent) force

lemma update_activity_effect:
  assumes "is_valid trip_id" and "is_valid x"
    and "find_one (\<lambda>t. id_T t = ObjectId trip_id) (trips db) = Some T"
    and "owner_id T = id_U U \<or> id_U U \<in> set (collaborators T)"
  shows "fst (update_activity db trip_id x A U) = Inr (A\<lparr>id_A := ObjectId x\<rparr>)"
    and "find_one (\<lambda>t. id_T t = ObjectId trip_id) (trips (snd (update_activity db trip_id x A U)))
          = Some (T\<lparr>activities := set_positional (\<lambda>a. id_A a = ObjectId x)
                                   (\<lambda>a. A\<lparr>id_A := ObjectId x\<rparr>) (activities T)\<rparr>)"
proof -
  let ?p = "\<lambda>t. id_T t = ObjectId trip_id"
  let ?q = "\<lambda>t. id_T t = ObjectId trip_id \<and> ObjectId x \<in> set (map id_A (activities t))"
  let ?u = "\<lambda>t. t\<lparr>activities := set_positional (\<lambda>a. id_A a = ObjectId x)
                                   (\<lambda>a. A\<lparr>id_A := ObjectId x\<rparr>) (activities t)\<rparr>"
  have eq: "update_activity db trip_id x A U
      = (Inr (A\<lparr>id_A := ObjectId x\<rparr>), db\<lparr>trips := update_one ?q ?u (trips db)\<rparr>)"
    using assms by (auto simp: update_activity_def Let_def)
  then show "fst (update_activity db trip_id x A U) = Inr (A\<lparr>id_A := ObjectId x\<rparr>)" by simp
  have "\<not> ?q T \<Longrightarrow> ?u T = T"
    using find_one_holds [OF assms(3)] by (simp add: update_first_no_match)
  then have "(if ?q T then ?u T else T) = ?u T" by presburger
  with find_after_trip_update [OF assms(3), of ?q ?u] eq
  show "find_one ?p (trips (snd (update_activity db trip_id x A U))) = Some (?u T)"
    by simp
qed

lemma update_expense_effect:
  assumes "is_valid trip_id" and "is_valid x"
    and "find_one (\<lambda>t. id_T t = ObjectId trip_id) (trips db) = Some T"
    and "owner_id T = id_U U \<or> id_U U \<in> set (collaborators T)"
  shows "fst (update_expense db trip_id x E U) = Inr (E\<lparr>id_E := ObjectId x\<rparr>)"
    and "find_one (\<lambda>t. id_T t = ObjectId trip_id) (trips (snd (update_expense db trip_id x E U)))
          = Some (T\<lparr>expenses := set_positional (\<lambda>e. id_E e = ObjectId x)
                                   (\<lambda>e. E\<lparr>id_E := ObjectId x\<rparr>) (expenses T)\<rparr>)"
proof -
  let ?p = "\<lambda>t. id_T t = ObjectId trip_id"
  let ?q = "\<lambda>t. id_T t = ObjectId trip_id \<and> ObjectId x \<in> set (map id_E (expenses t))"
  let ?u = "\<lambda>t. t\<lparr>expenses := set_positional (\<lambda>e. id_E e = ObjectId x)
                                   (\<lambda>e. E\<lparr>id_E := ObjectId x\<rparr>) (expenses t)\<rparr>"
  have eq: "update_expense db trip_id x E U
      = (Inr (E\<lparr>id_E := ObjectId x\<rparr>), db\<lparr>trips := update_one ?q ?u (trips db)\<rparr>)"
    using assms by (auto simp: update_expense_def Let_def)
  then show "fst (update_expense db trip_id x E U) = Inr (E\<lparr>id_E := ObjectId x\<rparr>)" by simp
  have "\<not> ?q T \<Longrightarrow> ?u T = T"
    using find_one_holds [OF assms(3)] by (simp add: update_first_no_match)
  then have "(if ?q T then ?u T else T) = ?u T" by presburger
  with find_after_trip_update [OF assms(3), of ?q ?u] eq
  show "find_one ?p (trips (snd (update_expense db trip_id x E U))) = Some (?u T)"
    by simp
qed

lemma update_packing_item_effect:
  assumes "is_valid trip_id" and "is_valid x"
    and "find_one (\<lambda>t. id_T t = ObjectId trip_id) (trips db) = Some T"
    and "owner_id T = id_U U \<or> id_U U \<in> set (collaborators T)"
  shows "fst (update_packing_item db trip_id x P U) = Inr (P\<lparr>id_P := ObjectId x\<rparr>)"
    and "find_one (\<lambda>t. id_T t = ObjectId trip_id)
           (trips (snd (update_packing_item db trip_id x P U)))
          = Some (T\<lparr>packing_items := set_positional (\<lambda>i. id_P i = ObjectId x)
                                   (\<lambda>i. P\<lparr>id_P := ObjectId x\<rparr>) (packing_items T)\<rparr>)"
proof -
  let ?p = "\<lambda>t. id_T t = ObjectId trip_id"
  let ?q = "\<lambda>t. id_T t = ObjectId trip_id \<and> ObjectId x \<in> set (map id_P (packing_items t))"
  let ?u = "\<lambda>t. t\<lparr>packing_items := set_positional (\<lambda>i. id_P i = ObjectId x)
                                   (\<lambda>i. P\<lparr>id_P := ObjectId x\<rparr>) (packing_items t)\<rparr>"
  have eq: "update_packing_item db trip_id x P U
      = (Inr (P\<lparr>id_P := ObjectId x\<rparr>), db\<lparr>trips := update_one ?q ?u (trips db)\<rparr>)"
    using assms by (auto simp: update_packing_item_def Let_def)
  then show "fst (update_packing_item db trip_id x P U) = Inr (P\<lparr>id_P := ObjectId x\<rparr>)"
    by simp
  have "\<not> ?q T \<Longrightarrow> ?u T = T"
    using find_one_holds [OF assms(3)] by (simp add: update_first_no_match)
  then have "(if ?q T then ?u T else T) = ?u T" by presburger
  with find_after_trip_update [OF assms(3), of ?q ?u] eq
  show "find_one ?p (trips (snd (update_packing_item db trip_id x P U))) = Some (?u T)"
    by simp
qed

lemma replace_first:
  assumes "xs = ys @ a # zs" and "v \<notin> set (map k ys)" and "k a = v"
  shows "update_first (\<lambda>x. k x = v) (\<lambda>x. b) xs = ys @ b # zs"
proof -
  from assms(2) have "\<forall>x\<in>set ys. \<not> k x = v" by force
  with assms(1,3) show ?thesis by (simp add: update_first_split)
qed

text \<open>
  What the three update handlers do, for an existing trip \<open>T\<close> that \<open>U\<close> may access and
  a well-formed identifier \<open>x\<close>: each returns the provided value carrying the identifier
  \<open>x\<close>.  When an element of the collection carries \<open>x\<close>, the first such element is
  replaced wholesale by the provided value and nothing else of the trip changes; when
  none does, the stored trip is left as it was.
\<close>

lemma update_by_identifier:
  assumes "is_valid trip_id" and "is_valid x"
    and "find_one (\<lambda>t. id_T t = ObjectId trip_id) (trips db) = Some T"
    and "owner_id T = id_U U \<or> id_U U \<in> set (collaborators T)"
  shows
    "fst (update_activity db trip_id x A U) = Inr (A\<lparr>id_A := ObjectId x\<rparr>)
     \<and> (ObjectId x \<notin> set (map id_A (activities T)) \<longrightarrow>
          find_one (\<lambda>t. id_T t = ObjectId trip_id) (trips (snd (update_activity db trip_id x A U)))
            = Some T)
     \<and> (activities T = as @ a # as' \<and> ObjectId x \<notin> set (map id_A as) \<and> id_A a = ObjectId x \<longrightarrow>
          find_one (\<lambda>t. id_T t = ObjectId trip_id) (trips (snd (update_activity db trip_id x A U)))
            = Some (T\<lparr>activities := as @ A\<lparr>id_A := ObjectId x\<rparr> # as'\<rparr>))
     \<and> fst (update_expense db trip_id x E U) = Inr (E\<lparr>id_E := ObjectId x\<rparr>)
     \<and> (ObjectId x \<notin> set (map id_E (expenses T)) \<longrightarrow>
          find_one (\<lambda>t. id_T t = ObjectId trip_id) (trips (snd (update_expense db trip_id x E U)))
            = Some T)
     \<and> (expenses T = es @ e # es' \<and> ObjectId x \<notin> set (map id_E es) \<and> id_E e = ObjectId x \<longrightarrow>
          find_one (\<lambda>t. id_T t = ObjectId trip_id) (trips (snd (update_expense db trip_id x E U)))
            = Some (T\<lparr>expenses := es @ E\<lparr>id_E := ObjectId x\<rparr> # es'\<rparr>))
     \<and> fst (update_packing_item db trip_id x P U) = Inr (P\<lparr>id_P := ObjectId x\<rparr>)
     \<and> (ObjectId x \<notin> set (map id_P (packing_items T)) \<longrightarrow>
          find_one (\<lambda>t. id_T t = ObjectId trip_id)
            (trips (snd (update_packing_item db trip_id x P U))) = Some T)
     \<and> (packing_items T = ps @ p # ps' \<and> ObjectId x \<notin> set (map id_P ps) \<and> id_P p = ObjectId x \<longrightarrow>
          find_one (\<lambda>t. id_T t = ObjectId trip_id)
            (trips (snd (update_packing_item db trip_id x P U)))
            = Some (T\<lparr>packing_items := ps @ P\<lparr>id_P := ObjectId x\<rparr> # ps'\<rparr>))"
  using update_activity_effect [OF assms, of A] update_expense_effect [OF assms, of E]
    update_packing_item_effect [OF assms, of P]
  by (auto simp: update_first_no_match replace_first)

lemma update_by_identifier_example:
  "update_activity db0 ''111111111111111111111111'' ''0000000000000000000000A2'' picnic bob
     = (Inr (picnic\<lparr>id_A := ''0000000000000000000000a2''\<rparr>),
        db0\<lparr>trips := [paris\<lparr>activities := [museum, picnic\<lparr>id_A := ''0000000000000000000000a2''\<rparr>]\<rparr>]\<rparr>)
   \<and> find_one (\<lambda>t. id_T t = ObjectId ''111111111111111111111111'')
        (trips (snd (update_activity db0 ''111111111111111111111111''
                       ''0000000000000000000000A2'' picnic bob)))
     = Some (paris\<lparr>activities := [museum] @ picnic\<lparr>id_A := ObjectId ''0000000000000000000000A2''\<rparr> # []\<rparr>)"
proof -
  have v: "is_valid ''111111111111111111111111''" and x: "is_valid ''0000000000000000000000A2''"
    by (simp_all add: example_defs)
  have f: "find_one (\<lambda>t. id_T t = ObjectId ''111111111111111111111111'') (trips db0) = Some paris"
    by (simp add: example_defs)
  have a: "owner_id paris = id_U bob \<or> id_U bob \<in> set (collaborators paris)"
    by (simp add: example_defs)
  have here: "activities paris = [museum] @ dinner # []
      \<and> ObjectId ''0000000000000000000000A2'' \<notin> set (map id_A [museum])
      \<and> id_A dinner = ObjectId ''0000000000000000000000A2''"
    by (simp add: example_defs)
  have direct: "update_activity db0 ''111111111111111111111111'' ''0000000000000000000000A2'' picnic bob
     = (Inr (picnic\<lparr>id_A := ''0000000000000000000000a2''\<rparr>),
        db0\<lparr>trips := [paris\<lparr>activities := [museum, picnic\<lparr>id_A := ''0000000000000000000000a2''\<rparr>]\<rparr>]\<rparr>)"
    by (simp add: update_activity_def Let_def example_defs)
  from update_by_identifier [OF v x f a, of picnic "[museum]" dinner "[]"] here
  have "find_one (\<lambda>t. id_T t = ObjectId ''111111111111111111111111'')
        (trips (snd (update_activity db0 ''111111111111111111111111''
                       ''0000000000000000000000A2'' picnic bob)))
     = Some (paris\<lparr>activities := [museum] @ picnic\<lparr>id_A := ObjectId ''0000000000000000000000A2''\<rparr> # []\<rparr>)"
    by blast
  with direct show ?thesis by blast
qed

text \<open>
  C3.  For an existing trip that the user may access and a well-formed identifier, the
  update-by-identifier operation fails with a "not found" error when no element of the
  collection carries the identifier, and replaces the element wholesale when one does.
  The second half is the lemma above.  The first half is not what the three update
  handlers do: they never look at the outcome of \<^verbatim>\<open>update_one\<close>.  With an identifier
  that nothing in the trip carries, each of them answers with the body it was given, as if
  it had been stored, and leaves the database as it was.  \<open>toggle_packing_item\<close>, in the
  same router as \<open>update_packing_item\<close>, raises 404 "Packing item not found" for the
  same identifier.
\<close>

theorem update_absent_not_reported:
  "is_valid ''0000000000000000000000a9''
   \<and> ObjectId ''0000000000000000000000a9'' \<notin> set (map id_A (activities paris))
   \<and> get_trip_activities db0 ''111111111111111111111111'' bob = Inr (activities paris)
   \<and> update_activity db0 ''111111111111111111111111'' ''0000000000000000000000a9'' picnic bob
       = (Inr (picnic\<lparr>id_A := ''0000000000000000000000a9''\<rparr>), db0)
   \<and> is_valid ''0000000000000000000000e9''
   \<and> ObjectId ''0000000000000000000000e9'' \<notin> set (map id_E (expenses paris))
   \<and> update_expense db0 ''111111111111111111111111'' ''0000000000000000000000e9'' metro bob
       = (Inr (metro\<lparr>id_E := ''0000000000000000000000e9''\<rparr>), db0)
   \<and> is_valid ''0000000000000000000000f9''
   \<and> ObjectId ''0000000000000000000000f9'' \<notin> set (map id_P (packing_items paris))
   \<and> update_packing_item db0 ''111111111111111111111111'' ''0000000000000000000000f9''
        passport bob
       = (Inr (passport\<lparr>id_P := ''0000000000000000000000f9''\<rparr>), db0)
   \<and> toggle_packing_item db0 ''111111111111111111111111'' ''0000000000000000000000f9'' bob
       = (Inl (HTTPException 404 ''Packing item not found''), db0)"
  by (simp add: update_activity_def update_expense_def update_packing_item_def
        toggle_packing_item_def get_trip_activities_def example_defs)

theorem update_absent_not_reported_witness:
  "fst (update_activity db0 ''111111111111111111111111'' ''0000000000000000000000a9'' picnic bob)
     = Inr (picnic\<lparr>id_A := ''0000000000000000000000a9''\<rparr>)
   \<and> snd (update_activity db0 ''111111111111111111111111'' ''0000000000000000000000a9'' picnic bob)
     = db0
   \<and> fst (toggle_packing_item db0 ''111111111111111111111111'' ''0000000000000000000000f9'' bob)
     = Inl (HTTPException 404 ''Packing item not found'')"
  using update_absent_not_reported by simp

section \<open>Reordering the activities\<close>

lemma final_order_single:
  "fst od = Some activity_id \<Longrightarrow> is_valid activity_id \<Longrightarrow>
   (case final_order [od] (id_A a) of None \<Rightarrow> a | Some n \<Rightarrow> a\<lparr>order := n\<rparr>)
     = (if id_A a = ObjectId activity_id then a\<lparr>order := snd od\<rparr> else a)"
  by auto

lemma final_order_keeps_id:
  "id_A (case final_order ods (id_A a) of None \<Rightarrow> a | Some n \<Rightarrow> a\<lparr>order := n\<rparr>) = id_A a"
  by (cases "final_order ods (id_A a)") simp_all

lemma reorder_step_effect:
  assumes found: "find_one (\<lambda>t. id_T t = ObjectId trip_id) ts = Some T"
    and dist: "distinct (map id_A (activities T))"
  shows "find_one (\<lambda>t. id_T t = ObjectId trip_id) (reorder_step trip_id order_data ts)
          = Some (T\<lparr>activities :=
                    map (\<lambda>a. case final_order [order_data] (id_A a) of
                                None \<Rightarrow> a | Some n \<Rightarrow> a\<lparr>order := n\<rparr>)
                      (activities T)\<rparr>)"
proof (cases "fst order_data")
  case None
  with found show ?thesis by (simp add: reorder_step_def)
next
  case (Some activity_id)
  show ?thesis
  proof (cases "is_valid activity_id")
    case False
    with Some found show ?thesis by (simp add: reorder_step_def)
  next
    case True
    let ?x = "ObjectId activity_id"
    let ?q = "\<lambda>t. id_T t = ObjectId trip_id \<and> ?x \<in> set (map id_A (activities t))"
    let ?u = "\<lambda>t. t\<lparr>activities := set_positional (\<lambda>a. id_A a = ?x)
                                   (\<lambda>a. a\<lparr>order := snd order_data\<rparr>) (activities t)\<rparr>"
    have step: "reorder_step trip_id order_data ts = update_one ?q ?u ts"
      using Some True by (simp add: reorder_step_def)
    have "\<not> ?q T \<Longrightarrow> ?u T = T"
      using find_one_holds [OF found] by (simp add: update_first_no_match)
    then have "(if ?q T then ?u T else T) = ?u T" by presburger
    with find_after_trip_update [OF found, of ?q ?u] step
    have "find_one (\<lambda>t. id_T t = ObjectId trip_id) (reorder_step trip_id order_data ts)
            = Some (?u T)"
      by simp
    moreover have "set_positional (\<lambda>a. id_A a = ?x) (\<lambda>a. a\<lparr>order := snd order_data\<rparr>)
                     (activities T)
        = map (\<lambda>a. case final_order [order_data] (id_A a) of
                      None \<Rightarrow> a | Some n \<Rightarrow> a\<lparr>order := n\<rparr>) (activities T)"
      unfolding update_first_distinct [OF dist] final_order_single [OF Some True] ..
    ultimately show ?thesis by simp
  qed
qed

lemma reorder_loop_effect:
  assumes "find_one (\<lambda>t. id_T t = ObjectId trip_id) ts = Some T"
    and "distinct (map id_A (activities T))"
  shows "find_one (\<lambda>t. id_T t = ObjectId trip_id) (reorder_loop trip_id activity_orders ts)
          = Some (T\<lparr>activities :=
                    map (\<lambda>a. case final_order activity_orders (id_A a) of
                                None \<Rightarrow> a | Some n \<Rightarrow> a\<lparr>order := n\<rparr>)
                      (activities T)\<rparr>)"
  using assms
proof (induction activity_orders arbitrary: ts T)
  case Nil
  then show ?case by simp
next
  case (Cons od rest)
  let ?g = "\<lambda>a. case final_order [od] (id_A a) of None \<Rightarrow> a | Some n \<Rightarrow> a\<lparr>order := n\<rparr>"
  let ?T1 = "T\<lparr>activities := map ?g (activities T)\<rparr>"
  have ids: "map id_A (map ?g (activities T)) = map id_A (activities T)"
    unfolding map_map comp_def final_order_keeps_id ..
  have found1: "find_one (\<lambda>t. id_T t = ObjectId trip_id) (reorder_step trip_id od ts) = Some ?T1"
    by (rule reorder_step_effect [OF Cons.prems])
  have "activities ?T1 = map ?g (activities T)" by simp
  with Cons.prems(2) ids have dist1: "distinct (map id_A (activities ?T1))"
    by (simp only:)
  have same_id: "\<And>a. id_A (?g a) = id_A a"
    by (rule final_order_keeps_id)
  have "map (\<lambda>a. case final_order rest (id_A a) of None \<Rightarrow> a | Some n \<Rightarrow> a\<lparr>order := n\<rparr>)
          (map ?g (activities T))
      = map (\<lambda>a. case final_order (od # rest) (id_A a) of None \<Rightarrow> a | Some n \<Rightarrow> a\<lparr>order := n\<rparr>)
          (activities T)"
    unfolding map_map comp_def same_id
    by (rule map_cong [OF refl]) (auto split: option.splits)
  with Cons.IH [OF found1 dist1] show ?case by simp
qed

text \<open>
  The activities of a stored trip carry distinct identifiers as long as every
  \<^verbatim>\<open>ObjectId()\<close> is new: the four activity handlers keep it so.
\<close>

lemma list_all_update_first:
  "list_all I ts \<Longrightarrow> (\<And>t. t \<in> set ts \<Longrightarrow> I t \<Longrightarrow> I (u t)) \<Longrightarrow> list_all I (update_first q u ts)"
  by (induction ts) auto

lemma keys_update_first:
  "(\<And>x. k (u x) = k x) \<Longrightarrow> map k (update_first q u xs) = map k xs"
  by (induction xs) auto

lemma keys_replace_first:
  "k b = v \<Longrightarrow> map k (update_first (\<lambda>x. k x = v) (\<lambda>x. b) xs) = map k xs"
  by (induction xs) auto

lemma activity_ids_stay_distinct:
  assumes "list_all (\<lambda>t. distinct (map id_A (activities t))) (trips db)"
  shows "(\<forall>t\<in>set (trips db). new_oid \<notin> set (map id_A (activities t))) \<Longrightarrow>
         list_all (\<lambda>t. distinct (map id_A (activities t)))
           (trips (snd (create_activity db trip_id A U new_oid)))"
    and "list_all (\<lambda>t. distinct (map id_A (activities t)))
           (trips (snd (update_activity db trip_id x A U)))"
    and "list_all (\<lambda>t. distinct (map id_A (activities t)))
           (trips (snd (delete_activity db trip_id x U)))"
    and "list_all (\<lambda>t. distinct (map id_A (activities t)))
           (trips (snd (reorder_activities db trip_id ods U)))"
proof -
  let ?I = "\<lambda>t. distinct (map id_A (activities t))"
  show "(\<forall>t\<in>set (trips db). new_oid \<notin> set (map id_A (activities t))) \<Longrightarrow>
         list_all ?I (trips (snd (create_activity db trip_id A U new_oid)))"
    using assms
    by (auto simp: create_activity_def Let_def push_def intro!: list_all_update_first
        split: option.splits)
  show "list_all ?I (trips (snd (update_activity db trip_id x A U)))"
    using assms
    by (auto simp: update_activity_def Let_def keys_replace_first
        intro!: list_all_update_first split: option.splits)
  show "list_all ?I (trips (snd (delete_activity db trip_id x U)))"
    using assms
    by (auto simp: delete_activity_def pull_def distinct_map_filter
        intro!: list_all_update_first split: option.splits)
  have step: "list_all ?I ts \<Longrightarrow> list_all ?I (reorder_step trip_id od ts)" for ts od
    by (auto simp: reorder_step_def keys_update_first intro!: list_all_update_first
        split: option.splits)
  have loop: "list_all ?I ts \<Longrightarrow> list_all ?I (reorder_loop trip_id ods ts)" for ts
    by (induction ods arbitrary: ts) (simp_all add: step)
  show "list_all ?I (trips (snd (reorder_activities db trip_id ods U)))"
    using assms by (auto simp: reorder_activities_def loop split: option.splits)
qed

text \<open>
  C5.  For an existing trip \<open>T\<close> that \<open>U\<close> may access, whose activities carry distinct
  identifiers, and for every list of entries (identifier, new order),
  \<open>reorder_activities\<close> returns its success message, and the stored trip is \<open>T\<close> with
  each activity whose identifier a valid entry names set to the order of that entry (the
  last one, if several name it).  Entries whose identifier is missing, invalid or absent
  from the trip change nothing, and no other field of any activity changes.
\<close>

theorem reorder_activities_effect:
  assumes "is_valid trip_id"
    and "find_one (\<lambda>t. id_T t = ObjectId trip_id) (trips db) = Some T"
    and "owner_id T = id_U U \<or> id_U U \<in> set (collaborators T)"
    and "distinct (map id_A (activities T))"
  shows "fst (reorder_activities db trip_id activity_orders U)
           = Inr ''Activities reordered successfully''
       \<and> find_one (\<lambda>t. id_T t = ObjectId trip_id)
           (trips (snd (reorder_activities db trip_id activity_orders U)))
           = Some (T\<lparr>activities :=
                     map (\<lambda>a. case final_order activity_orders (id_A a) of
                                 None \<Rightarrow> a | Some n \<Rightarrow> a\<lparr>order := n\<rparr>)
                       (activities T)\<rparr>)"
proof -
  have "reorder_activities db trip_id activity_orders U
      = (Inr ''Activities reordered successfully'',
         db\<lparr>trips := reorder_loop trip_id activity_orders (trips db)\<rparr>)"
    using assms(1-3) by (auto simp: reorder_activities_def)
  with reorder_loop_effect [OF assms(2,4), of activity_orders] show ?thesis by simp
qed

theorem reorder_activities_effect_witness:
  "reorder_activities db0 ''111111111111111111111111''
       [(Some ''0000000000000000000000a2'', 7), (Some ''not-an-id'', 3),
        (Some ''0000000000000000000000a9'', 4), (None, 8)] bob
     = (Inr ''Activities reordered successfully'',
        db0\<lparr>trips := [paris\<lparr>activities := [museum, dinner\<lparr>order := 7\<rparr>]\<rparr>]\<rparr>)
   \<and> find_one (\<lambda>t. id_T t = ObjectId ''111111111111111111111111'')
        (trips (snd (reorder_activities db0 ''111111111111111111111111''
           [(Some ''0000000000000000000000a2'', 7), (Some ''not-an-id'', 3),
            (Some ''0000000000000000000000a9'', 4), (None, 8)] bob)))
     = Some (paris\<lparr>activities := [museum, dinner\<lparr>order := 7\<rparr>]\<rparr>)"
proof -
  have v: "is_valid ''111111111111111111111111''" by (simp add: example_defs)
  have f: "find_one (\<lambda>t. id_T t = ObjectId ''111111111111111111111111'') (trips db0) = Some paris"
    by (simp add: example_defs)
  have a: "owner_id paris = id_U bob \<or> id_U bob \<in> set (collaborators paris)"
    by (simp add: example_defs)
  have d: "distinct (map id_A (activities paris))" by (simp add: example_defs)
  have direct: "reorder_activities db0 ''111111111111111111111111''
       [(Some ''0000000000000000000000a2'', 7), (Some ''not-an-id'', 3),
        (Some ''0000000000000000000000a9'', 4), (None, 8)] bob
     = (Inr ''Activities reordered successfully'',
        db0\<lparr>trips := [paris\<lparr>activities := [museum, dinner\<lparr>order := 7\<rparr>]\<rparr>]\<rparr>)"
    by (simp add: reorder_activities_def reorder_step_def example_defs)
  have "map (\<lambda>a. case final_order [(Some ''0000000000000000000000a2'', 7), (Some ''not-an-id'', 3),
                      (Some ''0000000000000000000000a9'', 4), (None, 8)] (id_A a) of
                    None \<Rightarrow> a | Some n \<Rightarrow> a\<lparr>order := n\<rparr>) (activities paris)
        = [museum, dinner\<lparr>order := 7\<rparr>]"
    by (simp add: example_defs)
  with reorder_activities_effect [OF v f a d,
      of "[(Some ''0000000000000000000000a2'', 7), (Some ''not-an-id'', 3),
           (Some ''0000000000000000000000a9'', 4), (None, 8)]"] direct
  show ?thesis by simp
qed

section \<open>The expense summary\<close>

text \<open>
  C6.  For a trip \<open>T\<close> that \<open>U\<close> may access, the summary has \<open>total_spent\<close> the sum of the
  amounts of \<open>expenses T\<close>, \<open>remaining\<close> the budget less that sum, and
  \<open>category_breakdown\<close> the map that sends each category occurring in the expenses to the
  sum of the amounts of the expenses of that category, and no other key.
\<close>

theorem expense_summary_value:
  assumes "is_valid trip_id"
    and "find_one (\<lambda>t. id_T t = ObjectId trip_id) (trips db) = Some T"
    and "owner_id T = id_U U \<or> id_U U \<in> set (collaborators T)"
  shows "get_expense_summary db trip_id U =
           Inr \<lparr>budget_S = budget T,
                total_spent = sum_list (map amount (expenses T)),
                remaining = budget T - sum_list (map amount (expenses T)),
                category_breakdown =
                  (\<lambda>c. if c \<in> set (map category_E (expenses T))
                       then Some (sum_list (map amount
                                    (filter (\<lambda>e. category_E e = c) (expenses T))))
                       else None)\<rparr>"
proof -
  have "category_loop (expenses T) Map.empty =
          (\<lambda>c. if c \<in> set (map category_E (expenses T))
                then Some (sum_list (map amount (filter (\<lambda>e. category_E e = c) (expenses T))))
                else None)"
    by (rule ext) (simp add: category_loop_eq)
  with assms show ?thesis
    by (auto simp: get_expense_summary_def Let_def foldl_plus_sum_list)
qed

text \<open>
  The example of the specification: expenses of 100 and 50 for food and 30 for transport,
  with a budget of 500, give 180 spent, 320 remaining, food 150 and transport 30.
\<close>

theorem expense_summary_value_witness:
  "expenses paris = [lunch, snack, metro]
   \<and> map (\<lambda>e. (amount e, category_E e)) [lunch, snack, metro]
       = [(100, ''food''), (50, ''food''), (30, ''transport'')]
   \<and> budget paris = 500
   \<and> (case get_expense_summary db0 ''111111111111111111111111'' bob of
        Inl e \<Rightarrow> False
      | Inr s \<Rightarrow> total_spent s = 180 \<and> remaining s = 320
          \<and> category_breakdown s ''food'' = Some 150
          \<and> category_breakdown s ''transport'' = Some 30
          \<and> dom (category_breakdown s) = {''food'', ''transport''})"
proof -
  have v: "is_valid ''111111111111111111111111''" by (simp add: example_defs)
  have f: "find_one (\<lambda>t. id_T t = ObjectId ''111111111111111111111111'') (trips db0) = Some paris"
    by (simp add: example_defs)
  have a: "owner_id paris = id_U bob \<or> id_U bob \<in> set (collaborators paris)"
    by (simp add: example_defs)
  show ?thesis
    using expense_summary_value [OF v f a]
    by (auto simp: paris_def lunch_def snack_def metro_def dom_def split: if_splits)
qed

section \<open>The frame of the sub-resource mutations\<close>

lemma frame_refl: "(\<And>t. R t t) \<Longrightarrow> frame R db db"
  by (simp add: frame_def list_all2_refl)

lemma frame_update_one:
  "(\<And>t. R t t) \<Longrightarrow> (\<And>t. R t (u t)) \<Longrightarrow> frame R db (db\<lparr>trips := update_one q u (trips db)\<rparr>)"
  by (simp add: frame_def list_all2_update_first)

lemma only_activities_differ_simps:
  "only_activities_differ t t" "only_activities_differ t (t\<lparr>activities := xs\<rparr>)"
  by (simp_all add: only_activities_differ_def scalars_unchanged_def)

lemma only_expenses_differ_simps:
  "only_expenses_differ t t" "only_expenses_differ t (t\<lparr>expenses := xs\<rparr>)"
  by (simp_all add: only_expenses_differ_def scalars_unchanged_def)

lemma only_packing_items_differ_simps:
  "only_packing_items_differ t t" "only_packing_items_differ t (t\<lparr>packing_items := xs\<rparr>)"
  by (simp_all add: only_packing_items_differ_def scalars_unchanged_def)

lemma same_updated_at_simps:
  "same_updated_at t t" "same_updated_at t (t\<lparr>collaborators := xs\<rparr>)"
  by (simp_all add: same_updated_at_def)

lemma reorder_step_frame: "list_all2 only_activities_differ ts (reorder_step trip_id od ts)"
  by (auto simp: reorder_step_def list_all2_refl only_activities_differ_simps
      intro!: list_all2_update_first split: option.splits)

lemma only_activities_differ_trans:
  "only_activities_differ a b \<Longrightarrow> only_activities_differ b c \<Longrightarrow> only_activities_differ a c"
  by (simp add: only_activities_differ_def scalars_unchanged_def)

lemma reorder_loop_frame: "list_all2 only_activities_differ ts (reorder_loop trip_id ods ts)"
proof (induction ods arbitrary: ts)
  case Nil
  show ?case by (simp add: list_all2_refl only_activities_differ_simps)
next
  case (Cons od ods)
  have "list_all2 only_activities_differ ts
          (reorder_loop trip_id ods (reorder_step trip_id od ts))"
    by (rule list_all2_trans [OF only_activities_differ_trans reorder_step_frame Cons.IH])
  then show ?case by simp
qed

lemma activities_frame:
  "frame only_activities_differ db (snd (create_activity db trip_id A U new_oid))"
  "frame only_activities_differ db (snd (update_activity db trip_id x A U))"
  "frame only_activities_differ db (snd (delete_activity db trip_id x U))"
  "frame only_activities_differ db (snd (reorder_activities db trip_id ods U))"
     apply (simp_all add: create_activity_def update_activity_def delete_activity_def
        reorder_activities_def Let_def frame_refl frame_update_one
        only_activities_differ_simps split: option.splits)
  apply (simp add: frame_def reorder_loop_frame)
  done

lemma expenses_frame:
  "frame only_expenses_differ db (snd (create_expense db trip_id E U new_oid))"
  "frame only_expenses_differ db (snd (update_expense db trip_id x E U))"
  "frame only_expenses_differ db (snd (delete_expense db trip_id x U))"
  by (simp_all add: create_expense_def update_expense_def delete_expense_def
        Let_def frame_refl frame_update_one only_expenses_differ_simps split: option.splits)

lemma packing_items_frame:
  "frame only_packing_items_differ db (snd (create_packing_item db trip_id P U new_oid))"
  "frame only_packing_items_differ db (snd (update_packing_item db trip_id x P U))"
  "frame only_packing_items_differ db (snd (delete_packing_item db trip_id x U))"
  "frame only_packing_items_differ db (snd (toggle_packing_item db trip_id x U))"
  by (simp_all add: create_packing_item_def update_packing_item_def delete_packing_item_def
        toggle_packing_item_def Let_def frame_refl frame_update_one
        only_packing_items_differ_simps split: option.splits)

lemma collaboration_keeps_updated_at:
  "frame same_updated_at db (snd (add_collaborator db trip_id user_email U))"
  "frame same_updated_at db (snd (join_trip db trip_id U))"
  by (simp_all add: add_collaborator_def join_trip_def Let_def frame_refl frame_update_one
        same_updated_at_simps split: option.splits)

lemma update_trip_refreshes:
  assumes "is_valid trip_id"
    and "find_one (\<lambda>t. id_T t = ObjectId trip_id) (trips db) = Some T"
    and "owner_id T = id_U U" and "update_data_nonempty upd"
  shows "fst (update_trip db trip_id upd U now) = Inr (set_update_data upd now T)"
proof -
  have "find_one (\<lambda>t. id_T t = ObjectId trip_id)
          (update_one (\<lambda>t. id_T t = ObjectId trip_id) (set_update_data upd now) (trips db))
        = Some (set_update_data upd now T)"
    using find_after_trip_update [OF assms(2), of "\<lambda>t. id_T t = ObjectId trip_id"
        "set_update_data upd now"] find_one_holds [OF assms(2)]
    by (simp add: set_update_data_def)
  with assms show ?thesis by (simp add: update_trip_def reread_def Let_def)
qed

text \<open>
  C10.  Whatever its arguments, an add, update, delete, reorder or toggle on one of the
  three embedded collections leaves, in every trip, the other two collections and all
  scalar fields as they were (title, destination, dates, budget, owner, collaborators,
  notes, \<open>created_at\<close> and \<open>updated_at\<close>), and leaves the other collections of the
  database alone.  \<open>add_collaborator\<close> and \<open>join_trip\<close> keep \<open>updated_at\<close> too; the
  trip update, when its body sets a field, is the operation that stores the clock's value
  in \<open>updated_at\<close>.
\<close>

theorem sub_resource_frame:
  "frame only_activities_differ db (snd (create_activity db trip_id A U new_oid))
   \<and> frame only_activities_differ db (snd (update_activity db trip_id x A U))
   \<and> frame only_activities_differ db (snd (delete_activity db trip_id x U))
   \<and> frame only_activities_differ db (snd (reorder_activities db trip_id ods U))
   \<and> frame only_expenses_differ db (snd (create_expense db trip_id E U new_oid))
   \<and> frame only_expenses_differ db (snd (update_expense db trip_id x E U))
   \<and> frame only_expenses_differ db (snd (delete_expense db trip_id x U))
   \<and> frame only_packing_items_differ db (snd (create_packing_item db trip_id P U new_oid))
   \<and> frame only_packing_items_differ db (snd (update_packing_item db trip_id x P U))
   \<and> frame only_packing_items_differ db (snd (delete_packing_item db trip_id x U))
   \<and> frame only_packing_items_differ db (snd (toggle_packing_item db trip_id x U))
   \<and> frame same_updated_at db (snd (add_collaborator db trip_id user_email U))
   \<and> frame same_updated_at db (snd (join_trip db trip_id U))
   \<and> (is_valid trip_id \<and> find_one (\<lambda>t. id_T t = ObjectId trip_id) (trips db) = Some T
        \<and> owner_id T = id_U U \<and> update_data_nonempty upd
      \<longrightarrow> fst (update_trip db trip_id upd U now) = Inr (set_update_data upd now T)
          \<and> updated_at (set_update_data upd now T) = now)"
  by (simp add: activities_frame expenses_frame packing_items_frame
        collaboration_keeps_updated_at update_trip_refreshes set_update_data_def)

theorem sub_resource_frame_witness:
  "snd (create_expense db0 ''111111111111111111111111'' lunch bob ''0000000000000000000000e4'')
     = db0\<lparr>trips := [paris\<lparr>expenses :=
              [lunch, snack, metro, lunch\<lparr>id_E := ''0000000000000000000000e4''\<rparr>]\<rparr>]\<rparr>
   \<and> frame only_expenses_differ db0
       (snd (create_expense db0 ''111111111111111111111111'' lunch bob ''0000000000000000000000e4''))
   \<and> snd (toggle_packing_item db0 ''111111111111111111111111'' ''0000000000000000000000f1'' bob)
     = db0\<lparr>trips := [paris\<lparr>packing_items := [passport\<lparr>packed := True\<rparr>]\<rparr>]\<rparr>
   \<and> frame only_packing_items_differ db0
       (snd (toggle_packing_item db0 ''111111111111111111111111'' ''0000000000000000000000f1'' bob))
   \<and> fst (update_trip db0 ''111111111111111111111111''
            \<lparr>title_TU = None, destination_TU = None, start_date_TU = None, end_date_TU = None,
             budget_TU = Some 650, notes_TU = None\<rparr> alice 70)
     = Inr (paris\<lparr>budget := 650, updated_at := 70\<rparr>)"
proof -
  have e: "snd (create_expense db0 ''111111111111111111111111'' lunch bob ''0000000000000000000000e4'')
     = db0\<lparr>trips := [paris\<lparr>expenses :=
              [lunch, snack, metro, lunch\<lparr>id_E := ''0000000000000000000000e4''\<rparr>]\<rparr>]\<rparr>"
    by (simp add: create_expense_def Let_def example_defs)
  have p: "snd (toggle_packing_item db0 ''111111111111111111111111'' ''0000000000000000000000f1'' bob)
     = db0\<lparr>trips := [paris\<lparr>packing_items := [passport\<lparr>packed := True\<rparr>]\<rparr>]\<rparr>"
    by (simp add: toggle_packing_item_def Let_def example_defs)
  have pre: "is_valid ''111111111111111111111111''
      \<and> find_one (\<lambda>t. id_T t = ObjectId ''111111111111111111111111'') (trips db0) = Some paris
      \<and> owner_id paris = id_U alice
      \<and> update_data_nonempty \<lparr>title_TU = None, destination_TU = None, start_date_TU = None,
           end_date_TU = None, budget_TU = Some 650, notes_TU = None\<rparr>"
    by (simp add: update_data_nonempty_def example_defs)
  have s: "set_update_data \<lparr>title_TU = None, destination_TU = None, start_date_TU = None,
           end_date_TU = None, budget_TU = Some 650, notes_TU = None\<rparr> 70 paris
        = paris\<lparr>budget := 650, updated_at := 70\<rparr>"
    by (simp add: set_update_data_def paris_def)
  from sub_resource_frame [where db = db0 and trip_id = "''111111111111111111111111''"
      and U = bob and E = lunch and new_oid = "''0000000000000000000000e4''"]
  have f1: "frame only_expenses_differ db0
       (snd (create_expense db0 ''111111111111111111111111'' lunch bob ''0000000000000000000000e4''))"
    by blast
  from sub_resource_frame [where db = db0 and trip_id = "''111111111111111111111111''"
      and U = bob and x = "''0000000000000000000000f1''"]
  have f2: "frame only_packing_items_differ db0
       (snd (toggle_packing_item db0 ''111111111111111111111111'' ''0000000000000000000000f1'' bob))"
    by blast
  from sub_resource_frame [where db = db0 and trip_id = "''111111111111111111111111''"
      and U = alice and T = paris and now = 70
      and upd = "\<lparr>title_TU = None, destination_TU = None, start_date_TU = None,
           end_date_TU = None, budget_TU = Some 650, notes_TU = None\<rparr>"] pre s
  have f3: "fst (update_trip db0 ''111111111111111111111111''
            \<lparr>title_TU = None, destination_TU = None, start_date_TU = None, end_date_TU = None,
             budget_TU = Some 650, notes_TU = None\<rparr> alice 70)
     = Inr (paris\<lparr>budget := 650, updated_at := 70\<rparr>)"
    by simp
  from e p f1 f2 f3 show ?thesis by blast
qed

end
